theory Spec2Isabelle
  imports Main "HOL-Library.Word"
begin

section \<open>Package snmputil: building a gosnmp client from a Profile\<close>

text \<open>
  The package has one function, \<open>NewClient\<close> (client.go), with two closures,
  \<open>authCheck\<close> and \<open>v3auth\<close>, that share the local variables \<open>ok\<close>, \<open>aProto\<close>,
  \<open>pProto\<close> and \<open>msgFlags\<close>. The closures become functions that take the shared
  variables and return them updated. What the function does besides returning (the
  lines it writes with \<open>log.Printf\<close>, the call of the client's \<open>Connect\<close>) is
  returned as a list of events, in the order in which they happen.
\<close>

subsection \<open>Types and constants of the imported package gosnmp\<close>

text \<open>
  gosnmp declares its protocol identifiers, message flags, versions and security
  models as named \<open>uint8\<close> types with constants; a variable of such a type that was
  never assigned holds 0. \<open>time.Duration\<close> is an \<open>int64\<close> counting nanoseconds.
  Go's \<open>int\<close> is taken at its width on the 64-bit targets.
\<close>

type_synonym SnmpV3AuthProtocol = "8 word"
type_synonym SnmpV3PrivProtocol = "8 word"
type_synonym SnmpV3MsgFlags = "8 word"
type_synonym SnmpVersion = "8 word"
type_synonym SnmpV3SecurityModel = "8 word"
type_synonym Duration = "64 word"
type_synonym go_int = "64 word"

definition NoAuth :: SnmpV3AuthProtocol where "NoAuth = 1"
definition MD5 :: SnmpV3AuthProtocol where "MD5 = 2"
definition SHA :: SnmpV3AuthProtocol where "SHA = 3"

definition NoPriv :: SnmpV3PrivProtocol where "NoPriv = 1"
definition DES :: SnmpV3PrivProtocol where "DES = 2"
definition AES :: SnmpV3PrivProtocol where "AES = 3"

definition NoAuthNoPriv :: SnmpV3MsgFlags where "NoAuthNoPriv = 0"
definition AuthNoPriv :: SnmpV3MsgFlags where "AuthNoPriv = 1"
definition AuthPriv :: SnmpV3MsgFlags where "AuthPriv = 3"

definition Version1 :: SnmpVersion where "Version1 = 0"
definition Version2c :: SnmpVersion where "Version2c = 1"
definition Version3 :: SnmpVersion where "Version3 = 3"

definition UserSecurityModel :: SnmpV3SecurityModel where "UserSecurityModel = 3"

definition Second :: Duration where "Second = 1000000000"

record UsmSecurityParameters =
  UserName :: string
  AuthenticationProtocol :: SnmpV3AuthProtocol
  AuthenticationPassphrase :: string
  PrivacyProtocol :: SnmpV3PrivProtocol
  PrivacyPassphrase :: string

text \<open>The logger that \<open>log.New(os.Stderr, "", 0)\<close> makes.\<close>

datatype logger = StderrLogger

text \<open>
  The fields of \<open>gosnmp.GoSNMP\<close> that \<open>NewClient\<close> fills in. Four of them have the
  name of a field of \<open>Profile\<close> and carry the suffix \<open>_snmp\<close> here. The interface field
  \<open>SecurityParameters\<close> holds either nil or a pointer to a
  \<open>UsmSecurityParameters\<close>.
\<close>

record GoSNMP =
  Target :: string
  Port_snmp :: "16 word"
  Community_snmp :: string
  Version_snmp :: SnmpVersion
  Timeout_snmp :: Duration
  Retries_snmp :: go_int
  Logger :: "logger option"
  MsgFlags :: SnmpV3MsgFlags
  SecurityModel :: SnmpV3SecurityModel
  SecurityParameters :: "UsmSecurityParameters option"

subsection \<open>Declarations of client.go\<close>

definition defaultPort :: go_int where "defaultPort = 161"

definition authProto :: "string \<rightharpoonup> SnmpV3AuthProtocol" where
  "authProto = map_of [(''NoAuth'', NoAuth), (''MD5'', MD5), (''SHA'', SHA)]"

definition privacy :: "string \<rightharpoonup> SnmpV3PrivProtocol" where
  "privacy = map_of [(''NoPriv'', NoPriv), (''DES'', DES), (''AES'', AES)]"

text \<open>
  The six error values of the package, and \<open>ErrConnect\<close> for an error that the
  client's \<open>Connect\<close> returns (with its message).
\<close>

datatype error =
  ErrBadUser | ErrBadPassword | ErrBadProtocol | ErrLevel | ErrPrivacy | ErrVersion
  | ErrConnect string

record Profile =
  Host :: string
  Community :: string
  Version :: string
  Port :: go_int
  Timeout :: go_int
  Retries :: go_int
  SecLevel :: string
  AuthUser :: string
  AuthPass :: string
  AuthProto :: string
  PrivProto :: string
  PrivPass :: string

subsection \<open>Effects and shared variables\<close>

datatype event = Log string | Connect GoSNMP

text \<open>The variables that \<open>NewClient\<close> declares and both closures capture.\<close>

record vars =
  ok :: bool
  aProto :: SnmpV3AuthProtocol
  pProto :: SnmpV3PrivProtocol
  msgFlags :: SnmpV3MsgFlags

text \<open>
  \<open>aProto, ok = authProto[p.AuthProto]\<close> and its sibling for \<open>privacy\<close>: a missing
  key assigns the zero value and false.
\<close>

definition lookup_aProto :: "string \<Rightarrow> vars \<Rightarrow> vars" where
  "lookup_aProto name s =
     (case authProto name of
        Some a \<Rightarrow> s\<lparr>ok := True, aProto := a\<rparr>
      | None \<Rightarrow> s\<lparr>ok := False, aProto := 0\<rparr>)"

definition lookup_pProto :: "string \<Rightarrow> vars \<Rightarrow> vars" where
  "lookup_pProto name s =
     (case privacy name of
        Some a \<Rightarrow> s\<lparr>ok := True, pProto := a\<rparr>
      | None \<Rightarrow> s\<lparr>ok := False, pProto := 0\<rparr>)"

subsection \<open>The closure authCheck\<close>

definition authCheck :: "Profile \<Rightarrow> vars \<Rightarrow> (event list \<times> error option) \<times> vars" where
  "authCheck p s =
     (if length (AuthPass p) < 1 then
        (([Log (''Error no SNMPv3 password for host '' @ Host p)], Some ErrBadPassword), s)
      else
        (let s1 = lookup_aProto (AuthProto p) s in
         if \<not> ok s1 then
           (([Log (''Error in Auth Protocol '' @ AuthProto p @ '' for host '' @ Host p)],
             Some ErrBadProtocol), s1)
         else (([], None), s1)))"

subsection \<open>Order of evaluation in a return statement\<close>

text \<open>
  Two branches of \<open>v3auth\<close> end in
  \<^verbatim>\<open>return &gosnmp.UsmSecurityParameters{..., AuthenticationProtocol: aProto, ...}, authCheck()\<close>
  where the call assigns the variable \<open>aProto\<close> that the first operand reads. The Go
  specification orders the function calls of a statement from left to right and
  leaves open when a variable is read in relation to them. The gc compiler moves
  every call of a statement into a temporary ahead of the statement, so the variable
  is read after the call: that is \<open>CallsFirst\<close>. \<open>OperandsInOrder\<close> is the other
  order the specification allows, with the first operand built before the call.
\<close>

datatype eval_order = CallsFirst | OperandsInOrder

definition return_with_authCheck ::
  "eval_order \<Rightarrow> Profile \<Rightarrow> (vars \<Rightarrow> UsmSecurityParameters) \<Rightarrow> vars
    \<Rightarrow> (event list \<times> UsmSecurityParameters option \<times> error option) \<times> vars" where
  "return_with_authCheck ord p lit s =
     (case authCheck p s of
        ((evs, err), s1) \<Rightarrow>
          ((evs, Some (lit (case ord of CallsFirst \<Rightarrow> s1 | OperandsInOrder \<Rightarrow> s)), err), s1))"

subsection \<open>The closure v3auth\<close>

definition v3auth ::
  "eval_order \<Rightarrow> Profile \<Rightarrow> vars
    \<Rightarrow> (event list \<times> UsmSecurityParameters option \<times> error option) \<times> vars" where
  "v3auth ord p s =
     (if length (AuthUser p) < 1 then
        (([Log (''Error username not found in snmpv3 '' @ AuthUser p @ '' in host '' @ Host p)],
          None, Some ErrBadUser), s)
      else if SecLevel p = ''NoAuthNoPriv'' then
        (let s1 = s\<lparr>msgFlags := NoAuthNoPriv\<rparr> in
         (([], Some \<lparr>UserName = AuthUser p,
                     AuthenticationProtocol = NoAuth,
                     AuthenticationPassphrase = [],
                     PrivacyProtocol = NoPriv,
                     PrivacyPassphrase = []\<rparr>, None), s1))
      else if SecLevel p = ''AuthNoPriv'' then
        (let s1 = s\<lparr>msgFlags := AuthNoPriv\<rparr> in
         return_with_authCheck ord p
           (\<lambda>t. \<lparr>UserName = AuthUser p,
                 AuthenticationProtocol = aProto t,
                 AuthenticationPassphrase = AuthPass p,
                 PrivacyProtocol = NoPriv,
                 PrivacyPassphrase = []\<rparr>) s1)
      else if SecLevel p = ''AuthPriv'' then
        (let s1 = s\<lparr>msgFlags := AuthPriv\<rparr> in
         if length (PrivPass p) < 1 then
           (([Log (''Error privPass not found in snmpv3 for host '' @ Host p)],
             None, Some ErrPrivacy), s1)
         else
           (let s2 = lookup_pProto (PrivProto p) s1 in
            if \<not> ok s2 then
              (([Log (''Error in Priv Protocol '' @ PrivProto p @ '' for host '' @ Host p)],
                None, Some ErrBadPassword), s2)
            else
              return_with_authCheck ord p
                (\<lambda>t. \<lparr>UserName = AuthUser p,
                      AuthenticationProtocol = aProto t,
                      AuthenticationPassphrase = AuthPass p,
                      PrivacyProtocol = pProto t,
                      PrivacyPassphrase = PrivPass p\<rparr>) s2))
      else
        (([Log (''invalid security level '' @ SecLevel p @ '' for host '' @ Host p)],
          None, Some ErrLevel), s))"

subsection \<open>NewClient\<close>

text \<open>
  \<open>connect\<close> stands for the method \<open>Connect\<close> of the gosnmp client: it gets the
  client that \<open>NewClient\<close> built, may change it (the caller's pointer is the same
  object) and returns nil or an error message. \<open>Debug\<close> is the package's flag of that
  name. The result is the list of events, the returned pointer (\<open>None\<close> for nil) and
  the returned error (\<open>None\<close> for nil).
\<close>

definition NewClient ::
  "eval_order \<Rightarrow> (GoSNMP \<Rightarrow> GoSNMP \<times> string option) \<Rightarrow> bool \<Rightarrow> Profile
    \<Rightarrow> event list \<times> GoSNMP option \<times> error option" where
  "NewClient ord connect Debug p0 =
     (let s0 = \<lparr>ok = False, aProto = 0, pProto = 0, msgFlags = 0\<rparr>;
          p = (if Port p0 = 0 then p0\<lparr>Port := defaultPort\<rparr> else p0);
          client = \<lparr>Target = Host p,
                    Port_snmp = ucast (Port p),
                    Community_snmp = [],
                    Version_snmp = 0,
                    Timeout_snmp = Timeout p * Second,
                    Retries_snmp = Retries p,
                    Logger = None,
                    MsgFlags = 0,
                    SecurityModel = 0,
                    SecurityParameters = None\<rparr>;
          switch =
            (if Version p = ''1'' then
               ([], Inr (client\<lparr>Version_snmp := Version1, Community_snmp := Community p\<rparr>))
             else if Version p = ''2'' \<or> Version p = ''2c'' then
               ([], Inr (client\<lparr>Version_snmp := Version2c, Community_snmp := Community p\<rparr>))
             else if Version p = ''3'' then
               (case v3auth ord p s0 of
                  ((evs, usmParams, err), s) \<Rightarrow>
                    (case err of
                       Some e \<Rightarrow> (evs, Inl e)
                     | None \<Rightarrow>
                         (evs, Inr (client\<lparr>MsgFlags := msgFlags s,
                                            SecurityModel := UserSecurityModel,
                                            SecurityParameters := usmParams,
                                            Version_snmp := Version3\<rparr>))))
             else ([], Inl ErrVersion))
      in case switch of
           (evs, Inl e) \<Rightarrow> (evs, None, Some e)
         | (evs, Inr c) \<Rightarrow>
             (let c1 = (if Debug then c\<lparr>Logger := Some StderrLogger\<rparr> else c) in
              case connect c1 of
                (c2, r) \<Rightarrow> (evs @ [Connect c1], Some c2, map_option ErrConnect r)))"

subsection \<open>Observing a run\<close>

text \<open>The clients that were handed to \<open>Connect\<close> in a list of events, in order.\<close>

fun handed :: "event list \<Rightarrow> GoSNMP list" where
  "handed [] = []"
| "handed (Log m # es) = handed es"
| "handed (Connect c # es) = c # handed es"

subsection \<open>Concrete inputs\<close>

text \<open>An engine whose \<open>Connect\<close> succeeds and leaves the client as it is.\<close>

definition connect_ok :: "GoSNMP \<Rightarrow> GoSNMP \<times> string option" where
  "connect_ok c = (c, None)"

text \<open>A version 3 profile with every field of level AuthPriv in place.\<close>

definition profile_v3 :: Profile where
  "profile_v3 =
     \<lparr>Host = ''10.0.0.1'', Community = ''public'', Version = ''3'',
      Port = 0, Timeout = 5, Retries = 2,
      SecLevel = ''AuthPriv'', AuthUser = ''admin'', AuthPass = ''secret'',
      AuthProto = ''SHA'', PrivProto = ''AES'', PrivPass = ''hidden''\<rparr>"

text \<open>The same profile without its two passphrases.\<close>

definition profile_no_passphrases :: Profile where
  "profile_no_passphrases = profile_v3\<lparr>AuthPass := [], PrivPass := []\<rparr>"

text \<open>The same profile with neither a username nor a known security level.\<close>

definition profile_no_user_bad_level :: Profile where
  "profile_no_user_bad_level = profile_v3\<lparr>AuthUser := [], SecLevel := ''bogus''\<rparr>"

text \<open>A version 2c profile whose port is \<open>2 ^ 16\<close>.\<close>

definition profile_port_65536 :: Profile where
  "profile_port_65536 = profile_v3\<lparr>Version := ''2c'', Port := 65536\<rparr>"

text \<open>A version 1 profile whose timeout in nanoseconds is beyond \<open>2 ^ 63 - 1\<close>.\<close>

definition profile_long_timeout :: Profile where
  "profile_long_timeout = profile_v3\<lparr>Version := ''1'', Timeout := 9223372037\<rparr>"

text \<open>The client that \<open>NewClient\<close> builds from \<open>profile_v3\<close> when \<open>Debug\<close> is off.\<close>

definition client_v3 :: GoSNMP where
  "client_v3 =
     \<lparr>Target = ''10.0.0.1'', Port_snmp = 161, Community_snmp = [],
      Version_snmp = Version3, Timeout_snmp = 5000000000, Retries_snmp = 2,
      Logger = None, MsgFlags = AuthPriv, SecurityModel = UserSecurityModel,
      SecurityParameters =
        Some \<lparr>UserName = ''admin'', AuthenticationProtocol = SHA,
              AuthenticationPassphrase = ''secret'', PrivacyProtocol = AES,
              PrivacyPassphrase = ''hidden''\<rparr>\<rparr>"

section \<open>Properties\<close>

lemmas NewClient_unfold =
  NewClient_def v3auth_def authCheck_def return_with_authCheck_def
  lookup_aProto_def lookup_pProto_def Let_def

lemmas concrete_unfold =
  profile_v3_def profile_no_passphrases_def profile_no_user_bad_level_def
  profile_port_65536_def profile_long_timeout_def connect_ok_def client_v3_def
  authProto_def privacy_def defaultPort_def Second_def
  NoAuth_def MD5_def SHA_def NoPriv_def DES_def AES_def
  NoAuthNoPriv_def AuthNoPriv_def AuthPriv_def
  Version1_def Version2c_def Version3_def UserSecurityModel_def

subsection \<open>Auxiliary facts\<close>

text \<open>Neither closure calls \<open>Connect\<close>.\<close>

lemma authCheck_no_connect: "handed (fst (fst (authCheck p s))) = []"
  by (simp add: authCheck_def Let_def)

lemma return_with_authCheck_no_connect:
  "handed (fst (fst (return_with_authCheck ord p lit s))) = []"
  using authCheck_no_connect [of p s]
  by (auto simp: return_with_authCheck_def split: prod.splits)

lemma v3auth_no_connect: "handed (fst (fst (v3auth ord p s))) = []"
  by (simp add: v3auth_def Let_def return_with_authCheck_no_connect)

text \<open>\<open>v3auth\<close> does not read the port, which \<open>NewClient\<close> may have replaced.\<close>

lemma v3auth_Port: "v3auth ord (p\<lparr>Port := x\<rparr>) s = v3auth ord p s"
  by (simp add: v3auth_def return_with_authCheck_def authCheck_def Let_def)

text \<open>The error that each closure returns, as a function of the profile.\<close>

lemma authCheck_verdict:
  "snd (fst (authCheck p s)) =
     (if AuthPass p = [] then Some ErrBadPassword
      else if authProto (AuthProto p) = None then Some ErrBadProtocol
      else None)"
  by (auto simp: authCheck_def lookup_aProto_def Let_def split: option.splits)

lemma return_with_authCheck_verdict:
  "snd (snd (fst (return_with_authCheck ord p lit s))) = snd (fst (authCheck p s))"
  by (simp add: return_with_authCheck_def split: prod.splits)

lemma v3auth_verdict:
  "snd (snd (fst (v3auth ord p s))) =
     (if AuthUser p = [] then Some ErrBadUser
      else if SecLevel p = ''NoAuthNoPriv'' then None
      else if SecLevel p = ''AuthNoPriv'' then
        (if AuthPass p = [] then Some ErrBadPassword
         else if authProto (AuthProto p) = None then Some ErrBadProtocol
         else None)
      else if SecLevel p = ''AuthPriv'' then
        (if PrivPass p = [] then Some ErrPrivacy
         else if privacy (PrivProto p) = None then Some ErrBadPassword
         else if AuthPass p = [] then Some ErrBadPassword
         else if authProto (AuthProto p) = None then Some ErrBadProtocol
         else None)
      else Some ErrLevel)"
  by (auto simp: v3auth_def Let_def return_with_authCheck_verdict authCheck_verdict
      lookup_pProto_def split: option.splits)

lemma v3auth_errors:
  assumes "snd (snd (fst (v3auth ord p s))) = Some e"
  shows "e \<in> {ErrBadUser, ErrBadPassword, ErrBadProtocol, ErrLevel, ErrPrivacy}"
  using assms unfolding v3auth_verdict
  by (auto split: if_splits)

text \<open>The conversion \<open>uint16(p.Port)\<close> keeps the low 16 bits.\<close>

lemma ucast_port: "uint (ucast (w :: 64 word) :: 16 word) = sint w mod 65536"
proof -
  have "uint (ucast w :: 16 word) = take_bit 16 (uint w)"
    by (simp add: unsigned_ucast_eq)
  also have "\<dots> = take_bit 16 (sint w)"
    by (simp add: sint_uint take_bit_signed_take_bit)
  finally show ?thesis by (simp add: take_bit_eq_mod)
qed

text \<open>The product \<open>time.Duration(p.Timeout) * time.Second\<close> in 64 bits.\<close>

lemma seconds_wrap:
  "sint ((t :: 64 word) * Second) = signed_take_bit 63 (sint t * 1000000000)"
  by (simp add: sint_word_ariths Second_def)

lemma seconds_in_range:
  assumes "- 9223372036 \<le> sint (t :: 64 word)" and "sint t \<le> 9223372036"
  shows "sint (t * Second) = sint t * 1000000000"
proof -
  have "- (2 ^ 63) \<le> sint t * 1000000000" and "sint t * 1000000000 < 2 ^ 63"
    using assms by simp_all
  then show ?thesis
    by (simp add: seconds_wrap signed_take_bit_int_eq_self)
qed

subsection \<open>Level AuthNoPriv\<close>

text \<open>
  C4. For a profile of version "3" and level "AuthNoPriv": an empty username gives
  \<open>ErrBadUser\<close>; otherwise an empty auth passphrase gives \<open>ErrBadPassword\<close>; otherwise
  an auth algorithm name that is not in the table gives \<open>ErrBadProtocol\<close>; otherwise
  the client is built with message flags \<open>AuthNoPriv\<close> and handed to \<open>Connect\<close>, whose
  outcome is the result. A missing passphrase wins over an unknown algorithm name.
\<close>

theorem AuthNoPriv_checks_in_order:
  assumes "Version p = ''3''" and "SecLevel p = ''AuthNoPriv''"
  shows "if AuthUser p = [] then snd (NewClient ord connect Debug p) = (None, Some ErrBadUser)
         else if AuthPass p = [] then
           snd (NewClient ord connect Debug p) = (None, Some ErrBadPassword)
         else if authProto (AuthProto p) = None then
           snd (NewClient ord connect Debug p) = (None, Some ErrBadProtocol)
         else \<exists>c. NewClient ord connect Debug p =
                     ([Connect c], Some (fst (connect c)), map_option ErrConnect (snd (connect c)))
                  \<and> MsgFlags c = AuthNoPriv"
  using assms
  by (auto simp: NewClient_unfold split: option.splits prod.splits)

theorem AuthNoPriv_checks_in_order_witness:
  "Version (profile_v3\<lparr>SecLevel := ''AuthNoPriv''\<rparr>) = ''3''
   \<and> SecLevel (profile_v3\<lparr>SecLevel := ''AuthNoPriv''\<rparr>) = ''AuthNoPriv''
   \<and> (\<exists>c. NewClient CallsFirst connect_ok False (profile_v3\<lparr>SecLevel := ''AuthNoPriv''\<rparr>) =
             ([Connect c], Some (fst (connect_ok c)), map_option ErrConnect (snd (connect_ok c)))
          \<and> MsgFlags c = AuthNoPriv)"
  using AuthNoPriv_checks_in_order
    [of "profile_v3\<lparr>SecLevel := ''AuthNoPriv''\<rparr>" CallsFirst connect_ok False]
  by (simp add: profile_v3_def authProto_def)

subsection \<open>Level AuthPriv\<close>

text \<open>
  C2, as the claim has it, fails: with a username and neither passphrase the claim
  gives \<open>ErrBadPassword\<close> (the auth passphrase is checked before the privacy
  passphrase), and \<open>NewClient\<close> returns \<open>ErrPrivacy\<close>.
\<close>

theorem AuthPriv_auth_first_counterexample:
  "Version profile_no_passphrases = ''3''
   \<and> SecLevel profile_no_passphrases = ''AuthPriv''
   \<and> AuthUser profile_no_passphrases = ''admin''
   \<and> AuthPass profile_no_passphrases = []
   \<and> snd (NewClient CallsFirst connect_ok False profile_no_passphrases) =
       (None, Some ErrPrivacy)"
  by (simp add: NewClient_unfold concrete_unfold)

text \<open>
  C2, amended. For a profile of version "3" and level "AuthPriv" the checks run in
  the order of the source: an empty username gives \<open>ErrBadUser\<close>; otherwise an empty
  privacy passphrase gives \<open>ErrPrivacy\<close>; otherwise an unknown privacy algorithm name
  gives \<open>ErrBadPassword\<close>; otherwise an empty auth passphrase gives \<open>ErrBadPassword\<close>;
  otherwise an unknown auth algorithm name gives \<open>ErrBadProtocol\<close>; otherwise the
  client is built with message flags \<open>AuthPriv\<close> and handed to \<open>Connect\<close>.
\<close>

theorem AuthPriv_checks_in_order:
  assumes "Version p = ''3''" and "SecLevel p = ''AuthPriv''"
  shows "if AuthUser p = [] then snd (NewClient ord connect Debug p) = (None, Some ErrBadUser)
         else if PrivPass p = [] then
           snd (NewClient ord connect Debug p) = (None, Some ErrPrivacy)
         else if privacy (PrivProto p) = None then
           snd (NewClient ord connect Debug p) = (None, Some ErrBadPassword)
         else if AuthPass p = [] then
           snd (NewClient ord connect Debug p) = (None, Some ErrBadPassword)
         else if authProto (AuthProto p) = None then
           snd (NewClient ord connect Debug p) = (None, Some ErrBadProtocol)
         else \<exists>c. NewClient ord connect Debug p =
                     ([Connect c], Some (fst (connect c)), map_option ErrConnect (snd (connect c)))
                  \<and> MsgFlags c = AuthPriv"
  using assms
  by (auto simp: NewClient_unfold split: option.splits prod.splits)

theorem AuthPriv_checks_in_order_witness:
  "Version profile_v3 = ''3'' \<and> SecLevel profile_v3 = ''AuthPriv''
   \<and> (\<exists>c. NewClient CallsFirst connect_ok False profile_v3 =
             ([Connect c], Some (fst (connect_ok c)), map_option ErrConnect (snd (connect_ok c)))
          \<and> MsgFlags c = AuthPriv)"
  using AuthPriv_checks_in_order [of profile_v3 CallsFirst connect_ok False]
  by (simp add: profile_v3_def authProto_def privacy_def)

text \<open>
  C1. For a profile of version "3" and level "AuthNoPriv" or "AuthPriv" that passes
  validation, the SecurityParameters of the client handed to \<open>Connect\<close> carry the
  identifier that the authentication table gives for the profile's auth algorithm
  name. The variable \<open>aProto\<close> is read after the call of \<open>authCheck\<close> in the same
  return statement, as the gc compiler orders it.
\<close>

theorem resolved_auth_protocol:
  assumes "Version p = ''3''"
    and "SecLevel p = ''AuthNoPriv'' \<or> SecLevel p = ''AuthPriv''"
    and "c \<in> set (handed (fst (NewClient CallsFirst connect Debug p)))"
  shows "\<exists>sp. SecurityParameters c = Some sp
            \<and> authProto (AuthProto p) = Some (AuthenticationProtocol sp)"
  using assms
  by (auto simp: NewClient_unfold split: option.splits prod.splits if_splits)

theorem resolved_auth_protocol_witness:
  "Version profile_v3 = ''3'' \<and> SecLevel profile_v3 = ''AuthPriv''
   \<and> client_v3 \<in> set (handed (fst (NewClient CallsFirst connect_ok False profile_v3)))
   \<and> (\<exists>sp. SecurityParameters client_v3 = Some sp
          \<and> authProto (AuthProto profile_v3) = Some (AuthenticationProtocol sp))"
proof -
  have h: "client_v3 \<in> set (handed (fst (NewClient CallsFirst connect_ok False profile_v3)))"
    by (simp add: NewClient_unfold concrete_unfold)
  have v: "Version profile_v3 = ''3''" and l: "SecLevel profile_v3 = ''AuthPriv''"
    by (simp_all add: profile_v3_def)
  from resolved_auth_protocol [OF v _ h] l v h show ?thesis by simp
qed

text \<open>
  Under the other order that the Go specification allows, the literal is built
  before \<open>authCheck\<close> has assigned \<open>aProto\<close>, and the field holds the zero value.
\<close>

lemma operands_in_order_reads_zero:
  "map (map_option AuthenticationProtocol)
     (map SecurityParameters
        (handed (fst (NewClient OperandsInOrder connect_ok False profile_v3)))) = [Some 0]
   \<and> authProto (AuthProto profile_v3) = Some SHA"
  by (simp add: NewClient_unfold concrete_unfold)

subsection \<open>Unknown security level\<close>

text \<open>
  C3, as the claim has it, fails: with version "3", an unknown level and an empty
  username, \<open>NewClient\<close> returns \<open>ErrBadUser\<close>, not \<open>ErrLevel\<close>.
\<close>

theorem unknown_level_empty_user_counterexample:
  "Version profile_no_user_bad_level = ''3''
   \<and> SecLevel profile_no_user_bad_level = ''bogus''
   \<and> AuthUser profile_no_user_bad_level = []
   \<and> snd (NewClient CallsFirst connect_ok False profile_no_user_bad_level) =
       (None, Some ErrBadUser)"
  by (simp add: NewClient_unfold concrete_unfold)

text \<open>
  C3, amended. For a profile of version "3" whose level is none of "NoAuthNoPriv",
  "AuthNoPriv", "AuthPriv": with a non-empty username \<open>NewClient\<close> fails with
  \<open>ErrLevel\<close>, whatever the other fields hold; with an empty username it fails with
  \<open>ErrBadUser\<close>.
\<close>

theorem unknown_level:
  assumes "Version p = ''3''"
    and "SecLevel p \<noteq> ''NoAuthNoPriv''" and "SecLevel p \<noteq> ''AuthNoPriv''"
    and "SecLevel p \<noteq> ''AuthPriv''"
  shows "snd (NewClient ord connect Debug p) =
           (None, Some (if AuthUser p = [] then ErrBadUser else ErrLevel))"
  using assms
  by (auto simp: NewClient_unfold split: option.splits prod.splits)

theorem unknown_level_witness:
  "Version (profile_v3\<lparr>SecLevel := ''bogus''\<rparr>) = ''3''
   \<and> SecLevel (profile_v3\<lparr>SecLevel := ''bogus''\<rparr>) \<noteq> ''NoAuthNoPriv''
   \<and> SecLevel (profile_v3\<lparr>SecLevel := ''bogus''\<rparr>) \<noteq> ''AuthNoPriv''
   \<and> SecLevel (profile_v3\<lparr>SecLevel := ''bogus''\<rparr>) \<noteq> ''AuthPriv''
   \<and> snd (NewClient CallsFirst connect_ok False (profile_v3\<lparr>SecLevel := ''bogus''\<rparr>)) =
       (None, Some ErrLevel)"
  using unknown_level [of "profile_v3\<lparr>SecLevel := ''bogus''\<rparr>" CallsFirst connect_ok False]
  by (simp add: profile_v3_def)

subsection \<open>Level NoAuthNoPriv\<close>

text \<open>
  C5. For a profile of version "3", level "NoAuthNoPriv" and a non-empty username,
  the client is handed to \<open>Connect\<close> with message flags \<open>NoAuthNoPriv\<close> and
  SecurityParameters that hold the username, \<open>NoAuth\<close> and \<open>NoPriv\<close>; the run is the
  same whatever \<open>AuthPass\<close>, \<open>AuthProto\<close>, \<open>PrivPass\<close> and \<open>PrivProto\<close> hold.
\<close>

theorem NoAuthNoPriv_needs_username_only:
  assumes "Version p = ''3''" and "SecLevel p = ''NoAuthNoPriv''" and "AuthUser p \<noteq> []"
  shows "(\<exists>c. NewClient ord connect Debug p =
                ([Connect c], Some (fst (connect c)), map_option ErrConnect (snd (connect c)))
            \<and> MsgFlags c = NoAuthNoPriv
            \<and> SecurityParameters c =
                Some \<lparr>UserName = AuthUser p, AuthenticationProtocol = NoAuth,
                      AuthenticationPassphrase = [], PrivacyProtocol = NoPriv,
                      PrivacyPassphrase = []\<rparr>)
       \<and> NewClient ord connect Debug
            (p\<lparr>AuthPass := apass, AuthProto := aname, PrivPass := ppass, PrivProto := pname\<rparr>) =
          NewClient ord connect Debug p"
  using assms
  by (auto simp: NewClient_unfold split: option.splits prod.splits)

theorem NoAuthNoPriv_needs_username_only_witness:
  "Version (profile_v3\<lparr>SecLevel := ''NoAuthNoPriv''\<rparr>) = ''3''
   \<and> SecLevel (profile_v3\<lparr>SecLevel := ''NoAuthNoPriv''\<rparr>) = ''NoAuthNoPriv''
   \<and> AuthUser (profile_v3\<lparr>SecLevel := ''NoAuthNoPriv''\<rparr>) = ''admin''
   \<and> NewClient CallsFirst connect_ok False
        (profile_v3\<lparr>SecLevel := ''NoAuthNoPriv'', AuthPass := [], AuthProto := ''ROT13'',
                     PrivPass := [], PrivProto := ''none''\<rparr>) =
      NewClient CallsFirst connect_ok False (profile_v3\<lparr>SecLevel := ''NoAuthNoPriv''\<rparr>)"
  using NoAuthNoPriv_needs_username_only
    [where p = "profile_v3\<lparr>SecLevel := ''NoAuthNoPriv''\<rparr>" and ord = CallsFirst
       and connect = connect_ok and Debug = False
       and apass = "[]" and aname = "''ROT13''" and ppass = "[]" and pname = "''none''"]
  by (simp add: profile_v3_def)

subsection \<open>Versions 1, 2 and 2c\<close>

text \<open>
  C6. For a profile of version "1", "2" or "2c" the client handed to \<open>Connect\<close> has
  the profile's community string as it is (empty or not) and no SecurityParameters;
  "2" and "2c" both select \<open>Version2c\<close>; the run is the same whatever the six
  version 3 fields hold.
\<close>

theorem community_versions:
  assumes "Version p = ''1'' \<or> Version p = ''2'' \<or> Version p = ''2c''"
  shows "(\<exists>c. NewClient ord connect Debug p =
                ([Connect c], Some (fst (connect c)), map_option ErrConnect (snd (connect c)))
            \<and> Community_snmp c = Community p
            \<and> SecurityParameters c = None
            \<and> Version_snmp c = (if Version p = ''1'' then Version1 else Version2c))
       \<and> NewClient ord connect Debug
            (p\<lparr>SecLevel := level, AuthUser := user, AuthPass := apass, AuthProto := aname,
               PrivProto := pname, PrivPass := ppass\<rparr>) =
          NewClient ord connect Debug p"
proof -
  consider "Version p = ''1''" | "Version p = ''2''" | "Version p = ''2c''"
    using assms by blast
  then show ?thesis
    by cases (simp_all add: NewClient_def Let_def split: prod.splits)
qed

theorem community_versions_witness:
  "Version profile_port_65536 = ''2c''
   \<and> (\<exists>c. NewClient CallsFirst connect_ok False profile_port_65536 =
             ([Connect c], Some (fst (connect_ok c)), map_option ErrConnect (snd (connect_ok c)))
          \<and> Community_snmp c = ''public''
          \<and> SecurityParameters c = None
          \<and> Version_snmp c = Version2c)"
  using community_versions [of profile_port_65536 CallsFirst connect_ok False]
  by (simp add: profile_port_65536_def profile_v3_def)

subsection \<open>Port\<close>

text \<open>
  C7, as the claim has it, fails: the port \<open>65536\<close> is not zero, and the client
  gets the port 0.
\<close>

theorem port_preserved_counterexample:
  "Port profile_port_65536 = 65536
   \<and> map Port_snmp
       (handed (fst (NewClient CallsFirst connect_ok False profile_port_65536))) = [0]"
  by (simp add: NewClient_unfold concrete_unfold)

text \<open>
  C7, amended. In every client that \<open>NewClient\<close> hands to \<open>Connect\<close>, the port is
  161 when the profile's port is 0, the profile's port when that lies between 1 and
  65535, and the profile's port modulo \<open>2 ^ 16\<close> for any other value (the conversion
  to \<open>uint16\<close>).
\<close>

theorem port_default:
  assumes "c \<in> set (handed (fst (NewClient ord connect Debug p)))"
  shows "uint (Port_snmp c) =
           (if Port p = 0 then 161
            else if 0 < sint (Port p) \<and> sint (Port p) < 65536 then sint (Port p)
            else sint (Port p) mod 65536)"
proof -
  have "Port_snmp c = (if Port p = 0 then 161 else ucast (Port p))"
    using assms
    by (auto simp: NewClient_unfold defaultPort_def split: option.splits prod.splits if_splits)
  then show ?thesis by (simp add: ucast_port)
qed

theorem port_default_witness:
  "client_v3 \<in> set (handed (fst (NewClient CallsFirst connect_ok False profile_v3)))
   \<and> Port profile_v3 = 0 \<and> uint (Port_snmp client_v3) = 161"
proof -
  have h: "client_v3 \<in> set (handed (fst (NewClient CallsFirst connect_ok False profile_v3)))"
    by (simp add: NewClient_unfold concrete_unfold)
  from port_default [OF h] h show ?thesis by (simp add: profile_v3_def)
qed

subsection \<open>Unknown version\<close>

text \<open>
  C8. For a profile whose version is none of "1", "2", "2c", "3", \<open>NewClient\<close> fails
  with \<open>ErrVersion\<close>; nothing is logged and nothing is handed to \<open>Connect\<close>, whatever
  the version 3 fields hold.
\<close>

theorem unknown_version:
  assumes "Version p \<noteq> ''1''" and "Version p \<noteq> ''2''" and "Version p \<noteq> ''2c''"
    and "Version p \<noteq> ''3''"
  shows "NewClient ord connect Debug p = ([], None, Some ErrVersion)"
  using assms
  by (auto simp: NewClient_def Let_def split: prod.splits)

theorem unknown_version_witness:
  "Version (profile_no_user_bad_level\<lparr>Version := ''4''\<rparr>) \<noteq> ''1''
   \<and> Version (profile_no_user_bad_level\<lparr>Version := ''4''\<rparr>) \<noteq> ''2''
   \<and> Version (profile_no_user_bad_level\<lparr>Version := ''4''\<rparr>) \<noteq> ''2c''
   \<and> Version (profile_no_user_bad_level\<lparr>Version := ''4''\<rparr>) \<noteq> ''3''
   \<and> NewClient CallsFirst connect_ok False (profile_no_user_bad_level\<lparr>Version := ''4''\<rparr>) =
       ([], None, Some ErrVersion)"
  using unknown_version [of "profile_no_user_bad_level\<lparr>Version := ''4''\<rparr>" CallsFirst connect_ok False]
  by (simp add: profile_no_user_bad_level_def profile_v3_def)

subsection \<open>Validation failures\<close>

text \<open>
  C9. When validation fails, that is, when the version is "3" and \<open>v3auth\<close> returns
  an error, or the version is none of "1", "2", "2c", "3" (the error is then
  \<open>ErrVersion\<close>), \<open>NewClient\<close> returns that error with a nil client; its only events
  are the log lines of \<open>v3auth\<close>, so \<open>Connect\<close> is not called and no client is handed
  out; and the error is one of the six error values of the package.
\<close>

theorem validation_failure_returns_nil:
  assumes "Version p = ''3''
             \<and> snd (snd (fst (v3auth ord p \<lparr>ok = False, aProto = 0, pProto = 0, msgFlags = 0\<rparr>)))
                 = Some e
         \<or> Version p \<notin> {''1'', ''2'', ''2c'', ''3''} \<and> e = ErrVersion"
  shows "NewClient ord connect Debug p =
           (if Version p = ''3''
            then fst (fst (v3auth ord p \<lparr>ok = False, aProto = 0, pProto = 0, msgFlags = 0\<rparr>))
            else [],
            None, Some e)
       \<and> handed (fst (NewClient ord connect Debug p)) = []
       \<and> e \<in> {ErrBadUser, ErrBadPassword, ErrBadProtocol, ErrLevel, ErrPrivacy, ErrVersion}"
proof (cases "Version p = ''3''")
  case False
  with assms have "Version p \<noteq> ''1''" "Version p \<noteq> ''2''" "Version p \<noteq> ''2c''"
    and "e = ErrVersion"
    by auto
  with False show ?thesis
    by (simp add: NewClient_def Let_def)
next
  case True
  let ?s0 = "\<lparr>ok = False, aProto = 0, pProto = 0, msgFlags = 0\<rparr>"
  define q where "q = (if Port p = 0 then p\<lparr>Port := defaultPort\<rparr> else p)"
  have vq: "v3auth ord q ?s0 = v3auth ord p ?s0"
    by (simp add: q_def v3auth_Port)
  obtain es usm err s1 where v: "v3auth ord p ?s0 = ((es, usm, err), s1)"
    by (metis prod_cases3 surj_pair)
  have q3: "Version q = ''3''"
    using True by (simp add: q_def)
  from assms True v have err: "err = Some e"
    by simp
  have es: "handed es = []"
    using v3auth_no_connect [of ord p ?s0] by (simp add: v)
  have e: "e \<in> {ErrBadUser, ErrBadPassword, ErrBadProtocol, ErrLevel, ErrPrivacy}"
    using v3auth_errors [of ord p ?s0 e] v err by simp
  have "NewClient ord connect Debug p = (es, None, Some e)"
    using q3 vq v err
    by (simp add: NewClient_def Let_def q_def [symmetric])
  with True v es e show ?thesis by auto
qed

theorem validation_failure_returns_nil_witness:
  "Version (profile_v3\<lparr>SecLevel := ''NoAuthNoPriv'', AuthUser := []\<rparr>) = ''3''
   \<and> snd (snd (fst (v3auth CallsFirst (profile_v3\<lparr>SecLevel := ''NoAuthNoPriv'', AuthUser := []\<rparr>)
        \<lparr>ok = False, aProto = 0, pProto = 0, msgFlags = 0\<rparr>))) = Some ErrBadUser
   \<and> snd (NewClient CallsFirst connect_ok False
        (profile_v3\<lparr>SecLevel := ''NoAuthNoPriv'', AuthUser := []\<rparr>)) = (None, Some ErrBadUser)
   \<and> handed (fst (NewClient CallsFirst connect_ok False
        (profile_v3\<lparr>SecLevel := ''NoAuthNoPriv'', AuthUser := []\<rparr>))) = []"
proof -
  have h: "Version (profile_v3\<lparr>SecLevel := ''NoAuthNoPriv'', AuthUser := []\<rparr>) = ''3''
    \<and> snd (snd (fst (v3auth CallsFirst (profile_v3\<lparr>SecLevel := ''NoAuthNoPriv'', AuthUser := []\<rparr>)
        \<lparr>ok = False, aProto = 0, pProto = 0, msgFlags = 0\<rparr>))) = Some ErrBadUser"
    by (simp add: v3auth_def profile_v3_def)
  from validation_failure_returns_nil [OF disjI1, OF h, of connect_ok False] h
  show ?thesis by (simp add: v3auth_no_connect)
qed

subsection \<open>Timeout and retries\<close>

text \<open>
  C10, as the claim has it, fails: a timeout of 9223372037 is not turned into that
  many seconds; the product with \<open>time.Second\<close> leaves the range of \<open>int64\<close> and the
  client's timeout is negative.
\<close>

theorem timeout_seconds_counterexample:
  "sint (Timeout profile_long_timeout) * 1000000000 = 9223372037000000000
   \<and> map sint (map Timeout_snmp
        (handed (fst (NewClient CallsFirst connect_ok False profile_long_timeout)))) =
       [- 9223372036709551616]"
  by (simp add: NewClient_unfold concrete_unfold)

text \<open>
  C10, amended. In every client that \<open>NewClient\<close> hands to \<open>Connect\<close>, the retry
  count is the profile's and the timeout is the profile's timeout multiplied by
  \<open>time.Second\<close> in 64-bit arithmetic: that many whole seconds when the timeout lies
  between -9223372036 and 9223372036, the wrapped product otherwise.
\<close>

theorem timeout_retries:
  assumes "c \<in> set (handed (fst (NewClient ord connect Debug p)))"
  shows "Timeout_snmp c = Timeout p * Second \<and> Retries_snmp c = Retries p
       \<and> sint (Timeout_snmp c) =
           (if - 9223372036 \<le> sint (Timeout p) \<and> sint (Timeout p) \<le> 9223372036
            then sint (Timeout p) * 1000000000
            else signed_take_bit 63 (sint (Timeout p) * 1000000000))"
proof -
  have eq: "Timeout_snmp c = Timeout p * Second \<and> Retries_snmp c = Retries p"
    using assms
    by (auto simp: NewClient_unfold split: option.splits prod.splits if_splits)
  then have t: "Timeout_snmp c = Timeout p * Second" and r: "Retries_snmp c = Retries p"
    by simp_all
  have s: "sint (Timeout p * Second) =
      (if - 9223372036 \<le> sint (Timeout p) \<and> sint (Timeout p) \<le> 9223372036
       then sint (Timeout p) * 1000000000
       else signed_take_bit 63 (sint (Timeout p) * 1000000000))"
  proof (cases "- 9223372036 \<le> sint (Timeout p) \<and> sint (Timeout p) \<le> 9223372036")
    case True
    then have "sint (Timeout p * Second) = sint (Timeout p) * 1000000000"
      by (simp add: seconds_in_range)
    then show ?thesis unfolding if_P [OF True] .
  next
    case False
    show ?thesis unfolding if_not_P [OF False] by (rule seconds_wrap)
  qed
  show ?thesis unfolding t r s by simp
qed

theorem timeout_retries_witness:
  "client_v3 \<in> set (handed (fst (NewClient CallsFirst connect_ok False profile_v3)))
   \<and> Timeout profile_v3 = 5 \<and> Retries profile_v3 = 2
   \<and> sint (Timeout_snmp client_v3) = 5000000000 \<and> Retries_snmp client_v3 = 2"
proof -
  have h: "client_v3 \<in> set (handed (fst (NewClient CallsFirst connect_ok False profile_v3)))"
    by (simp add: NewClient_unfold concrete_unfold)
  from timeout_retries [OF h] h show ?thesis by (simp add: profile_v3_def Second_def)
qed

end
